theory Spec2Isabelle
  imports Main
begin

section \<open>Python strings\<close>

text \<open>
  A Python \<open>str\<close> is modelled as a \<open>string\<close> (a list of characters; a character
  beyond ASCII is its UTF-8 bytes). The case mapping of \<open>str.lower\<close> is modelled on the
  ASCII letters; every other character is kept as it is. All keywords the code looks for
  are ASCII.
\<close>

definition is_upper :: "char \<Rightarrow> bool" where
  "is_upper c = (65 \<le> (of_char c :: nat) \<and> (of_char c :: nat) \<le> 90)"

definition is_lower :: "char \<Rightarrow> bool" where
  "is_lower c = (97 \<le> (of_char c :: nat) \<and> (of_char c :: nat) \<le> 122)"

definition char_lower :: "char \<Rightarrow> char" where
  "char_lower c = (if is_upper c then char_of ((of_char c :: nat) + 32) else c)"

definition char_upper :: "char \<Rightarrow> char" where
  "char_upper c = (if is_lower c then char_of ((of_char c :: nat) - 32) else c)"

text \<open>\<open>s.lower()\<close>\<close>

definition str_lower :: "string \<Rightarrow> string" where
  "str_lower s = map char_lower s"

text \<open>
  The case pairs of the ASCII letters, as a table. Two strings differ only in the case of
  their ASCII letters when they agree position by position up to these pairs.
\<close>

definition ascii_case_pairs :: "(char \<times> char) list" where
  "ascii_case_pairs = zip ''ABCDEFGHIJKLMNOPQRSTUVWXYZ'' ''abcdefghijklmnopqrstuvwxyz''"

definition ascii_case_variant :: "char \<Rightarrow> char \<Rightarrow> bool" where
  "ascii_case_variant a b =
     (a = b \<or> (a, b) \<in> set ascii_case_pairs \<or> (b, a) \<in> set ascii_case_pairs)"

definition differ_only_in_ascii_case :: "string \<Rightarrow> string \<Rightarrow> bool" where
  "differ_only_in_ascii_case x y = list_all2 ascii_case_variant x y"

text \<open>
  Letters beyond ASCII have case too. LATIN SMALL LETTER LONG S (U+017F, the bytes
  \<open>C5 BF\<close> in UTF-8) is a lower-case letter whose upper-case form is \<open>S\<close>, and
  \<open>str.lower\<close> leaves it as it is. The relation below holds of two strings that differ
  only in the case of their letters, for the ASCII letters and this one.
\<close>

inductive differ_only_in_case :: "string \<Rightarrow> string \<Rightarrow> bool" where
  Nil: "differ_only_in_case [] []"
| Same: "differ_only_in_case x y \<Longrightarrow> differ_only_in_case (c # x) (c # y)"
| Ascii: "ascii_case_variant a b \<Longrightarrow> differ_only_in_case x y
     \<Longrightarrow> differ_only_in_case (a # x) (b # y)"
| Long_s_right: "differ_only_in_case x y
     \<Longrightarrow> differ_only_in_case (CHR ''S'' # x) (CHR 0xC5 # CHR 0xBF # y)"
| Long_s_left: "differ_only_in_case x y
     \<Longrightarrow> differ_only_in_case (CHR 0xC5 # CHR 0xBF # x) (CHR ''S'' # y)"

text \<open>\<open>s.startswith(p)\<close>\<close>

fun startswith :: "string \<Rightarrow> string \<Rightarrow> bool" where
  "startswith s [] = True"
| "startswith [] (p # ps) = False"
| "startswith (c # cs) (p # ps) = (c = p \<and> startswith cs ps)"

text \<open>\<open>sub in s\<close>: \<open>sub\<close> occurs in \<open>s\<close> as a contiguous substring.\<close>

fun py_in :: "string \<Rightarrow> string \<Rightarrow> bool" where
  "py_in sub [] = (sub = [])"
| "py_in sub (c # cs) = (startswith (c # cs) sub \<or> py_in sub cs)"

text \<open>\<open>s.endswith(suf)\<close>\<close>

fun endswith :: "string \<Rightarrow> string \<Rightarrow> bool" where
  "endswith [] suf = (suf = [])"
| "endswith (c # cs) suf = (c # cs = suf \<or> endswith cs suf)"

section \<open>The mock client: canned responses and routing\<close>

definition MOCK_MARKET_REPORT :: string where
  "MOCK_MARKET_REPORT =
     ''## Market Analysis Report\<newline>'' @
     ''\<newline>'' @
     ''**Trend Overview**: The stock shows a moderate uptrend over the past 30 days with increasing volume. The 50-day SMA is above the 200-day SMA, confirming a bullish golden cross pattern.\<newline>'' @
     ''\<newline>'' @
     ''**Key Technical Indicators**:\<newline>'' @
     ''- RSI: 62 (neutral-bullish, not overbought)\<newline>'' @
     ''- MACD: Positive crossover observed, histogram expanding\<newline>'' @
     ''- Bollinger Bands: Price trading in upper half, bandwidth expanding\<newline>'' @
     ''- ATR: Volatility increasing slightly, suggesting momentum building\<newline>'' @
     ''\<newline>'' @
     ''**Volume Analysis**: Volume has been 15% above the 20-day average, supporting the current uptrend.\<newline>'' @
     ''\<newline>'' @
     ''| Indicator | Value | Signal |\<newline>'' @
     ''|-----------|-------|--------|\<newline>'' @
     ''| RSI (14) | 62.3 | Neutral-Bullish |\<newline>'' @
     ''| MACD | +1.24 | Bullish Crossover |\<newline>'' @
     ''| 50 SMA | Above 200 SMA | Golden Cross |\<newline>'' @
     ''| ATR (14) | 2.8% | Moderate Volatility |\<newline>'' @
     ''\<newline>'' @
     ''FINAL TRANSACTION PROPOSAL: **BUY**''"

definition MOCK_SENTIMENT_REPORT :: string where
  "MOCK_SENTIMENT_REPORT =
     ''## Social Sentiment Analysis\<newline>'' @
     ''\<newline>'' @
     ''**Overall Sentiment**: Moderately positive across major social platforms.\<newline>'' @
     ''\<newline>'' @
     ''**Key Findings**:\<newline>'' @
     ''- Twitter/X mentions up 23% week-over-week with 68% positive sentiment\<newline>'' @
     ''- Reddit discussion volume elevated; bullish posts outnumber bearish 3:1\<newline>'' @
     ''- Institutional investor commentary skews cautiously optimistic\<newline>'' @
     ''- No significant negative viral content detected\<newline>'' @
     ''\<newline>'' @
     ''| Platform | Sentiment | Volume Change |\<newline>'' @
     ''|----------|-----------|---------------|\<newline>'' @
     ''| Twitter/X | 68% Positive | +23% WoW |\<newline>'' @
     ''| Reddit | 75% Positive | +18% WoW |\<newline>'' @
     ''| StockTwits | 61% Positive | +12% WoW |\<newline>'' @
     ''\<newline>'' @
     ''FINAL TRANSACTION PROPOSAL: **BUY**''"

definition MOCK_NEWS_REPORT :: string where
  "MOCK_NEWS_REPORT =
     ''## News Analysis Report\<newline>'' @
     ''\<newline>'' @
     ''**Key Developments**:\<newline>'' @
     ''1. Company reported Q1 earnings beating consensus estimates by 8%\<newline>'' @
     ''2. New product launch received positive industry coverage\<newline>'' @
     ''3. Sector-wide tailwinds from favorable regulatory developments\<newline>'' @
     ''4. No significant insider selling detected in recent filings\<newline>'' @
     ''\<newline>'' @
     ''**Macro Environment**: Stable interest rate outlook supports growth-oriented investments. Recent economic data indicates resilient consumer spending.\<newline>'' @
     ''\<newline>'' @
     ''| Factor | Impact | Confidence |\<newline>'' @
     ''|--------|--------|------------|\<newline>'' @
     ''| Earnings Beat | Positive | High |\<newline>'' @
     ''| Product Launch | Positive | Medium |\<newline>'' @
     ''| Regulatory | Positive | Medium |\<newline>'' @
     ''| Macro Outlook | Neutral-Positive | Medium |\<newline>'' @
     ''\<newline>'' @
     ''FINAL TRANSACTION PROPOSAL: **BUY**''"

definition MOCK_FUNDAMENTALS_REPORT :: string where
  "MOCK_FUNDAMENTALS_REPORT =
     ''## Fundamentals Analysis\<newline>'' @
     ''\<newline>'' @
     ''**Financial Health**: Strong balance sheet with healthy cash reserves and manageable debt levels.\<newline>'' @
     ''\<newline>'' @
     ''**Key Metrics**:\<newline>'' @
     ''- Revenue growth: 12% YoY\<newline>'' @
     ''- Gross margin: 65% (expanding)\<newline>'' @
     ''- Operating margin: 28% (stable)\<newline>'' @
     ''- Free cash flow positive and growing\<newline>'' @
     ''- Debt-to-equity: 0.45 (conservative)\<newline>'' @
     ''- Current ratio: 2.1 (strong liquidity)\<newline>'' @
     ''\<newline>'' @
     ''**Valuation**: Trading at a reasonable P/E relative to growth rate (PEG ~1.2).\<newline>'' @
     ''\<newline>'' @
     ''| Metric | Value | Trend |\<newline>'' @
     ''|--------|-------|-------|\<newline>'' @
     ''| Revenue Growth | 12% YoY | Improving |\<newline>'' @
     ''| Gross Margin | 65% | Expanding |\<newline>'' @
     ''| FCF Yield | 3.8% | Stable |\<newline>'' @
     ''| P/E Ratio | 28x | Fair |\<newline>'' @
     ''| Debt/Equity | 0.45 | Conservative |\<newline>'' @
     ''\<newline>'' @
     ''FINAL TRANSACTION PROPOSAL: **BUY**''"

definition MOCK_BULL_ARGUMENT :: string where
  "MOCK_BULL_ARGUMENT =
     ''The investment case here is compelling. Revenue growth of 12% YoY with expanding margins demonstrates operational leverage. The golden cross on the technical chart aligns with improving fundamentals, and positive social sentiment suggests the market is beginning to recognize the value proposition. The recent earnings beat provides a catalyst, and the PEG ratio of 1.2 suggests the stock is reasonably priced relative to its growth trajectory. I strongly advocate for a BUY position.''"

definition MOCK_BEAR_ARGUMENT :: string where
  "MOCK_BEAR_ARGUMENT =
     ''While the fundamentals appear solid on the surface, the RSI at 62 suggests we are approaching overbought territory. The elevated social media activity could indicate speculative froth rather than fundamental conviction. Additionally, the sector tailwinds may already be priced in. However, I acknowledge the earnings beat is a genuine positive signal. My concern is primarily around timing and valuation stretch rather than fundamental deterioration.''"

definition MOCK_RESEARCH_MANAGER_DECISION :: string where
  "MOCK_RESEARCH_MANAGER_DECISION =
     ''After carefully evaluating both perspectives, I side with the bull analyst. The convergence of strong earnings, positive technical momentum, and improving fundamentals creates a favorable risk-reward profile.\<newline>'' @
     ''\<newline>'' @
     ''**Recommendation: BUY**\<newline>'' @
     ''\<newline>'' @
     ''**Strategic Actions**:\<newline>'' @
     ''1. Initiate a position at current levels\<newline>'' @
     ''2. Set a stop-loss at 5% below entry\<newline>'' @
     ''3. Target a 15% upside over the next quarter\<newline>'' @
     ''4. Monitor upcoming earnings and sector developments for position adjustment\<newline>'' @
     ''\<newline>'' @
     ''FINAL TRANSACTION PROPOSAL: **BUY**''"

definition MOCK_TRADER_DECISION :: string where
  "MOCK_TRADER_DECISION =
     ''Based on the comprehensive analysis from the research team, I am executing a BUY recommendation.\<newline>'' @
     ''\<newline>'' @
     ''**Trade Plan**:\<newline>'' @
     ''- Action: BUY\<newline>'' @
     ''- Position Size: Moderate (not full allocation due to elevated RSI)\<newline>'' @
     ''- Entry: At current market price\<newline>'' @
     ''- Stop-Loss: 5% below entry\<newline>'' @
     ''- Take-Profit Target: 15% above entry\<newline>'' @
     ''- Time Horizon: 1-3 months\<newline>'' @
     ''\<newline>'' @
     ''The research team's bullish consensus, supported by strong earnings, positive technicals, and favorable sentiment, provides sufficient conviction for this trade.\<newline>'' @
     ''\<newline>'' @
     ''FINAL TRANSACTION PROPOSAL: **BUY**''"

definition MOCK_AGGRESSIVE_RISK :: string where
  "MOCK_AGGRESSIVE_RISK =
     ''The upside potential here significantly outweighs the downside risk. With 12% revenue growth, expanding margins, and a technical golden cross, we should be taking a larger position than suggested. The 5% stop-loss is too tight for the volatility profile; I would advocate for an 8% stop to avoid being shaken out. The conservative concern about RSI is overblown -- in strong uptrends, RSI can remain elevated for extended periods. We should be aggressive here.''"

definition MOCK_CONSERVATIVE_RISK :: string where
  "MOCK_CONSERVATIVE_RISK =
     ''While I acknowledge the positive signals, prudent risk management demands caution. The position size should be limited, and the stop-loss should remain tight. The market has been running hot, and mean reversion is always a risk. I recommend a smaller initial position with plans to add on any pullback, rather than going all-in at these levels.''"

definition MOCK_NEUTRAL_RISK :: string where
  "MOCK_NEUTRAL_RISK =
     ''Both the aggressive and conservative viewpoints have merit. A balanced approach would be to initiate a moderate position as the trader suggests, with the 5% stop-loss as a reasonable compromise. The risk-reward is favorable but not extraordinary. I support the BUY recommendation with the proposed position sizing.''"

definition MOCK_RISK_JUDGE_DECISION :: string where
  "MOCK_RISK_JUDGE_DECISION =
     ''After evaluating all three risk perspectives, I recommend proceeding with the BUY.\<newline>'' @
     ''\<newline>'' @
     ''**Final Risk-Adjusted Plan**:\<newline>'' @
     ''- Action: BUY\<newline>'' @
     ''- Position Size: Moderate allocation\<newline>'' @
     ''- Stop-Loss: 6% below entry (compromise between aggressive and conservative)\<newline>'' @
     ''- Take-Profit: 15% target with trailing stop\<newline>'' @
     ''- Risk Rating: Moderate\<newline>'' @
     ''\<newline>'' @
     ''The aggressive analyst makes a valid point about the strong trend, while the conservative analyst's caution about position sizing is prudent. The neutral analyst's balanced view aligns closest with optimal risk management. Proceeding with a moderate position at current levels.\<newline>'' @
     ''\<newline>'' @
     ''FINAL TRANSACTION PROPOSAL: **BUY**''"

text \<open>
  \<open>_route_response\<close>: the chain of \<open>if\<close> statements over the lowercased prompt text,
  in the order of the source; the first condition that holds decides the response.
\<close>

definition route_response :: "string \<Rightarrow> string" where
  "route_response text =
    (let t = str_lower text in
     if py_in ''extract the investment decision'' t then ''BUY''
     else if py_in ''analyzing financial markets'' t \<or> py_in ''technical indicator'' t
       then MOCK_MARKET_REPORT
     else if py_in ''social media'' t \<and> py_in ''sentiment'' t \<and> \<not> py_in ''analyst'' t
       then MOCK_SENTIMENT_REPORT
     else if py_in ''news'' t \<and> py_in ''researcher'' t \<and> py_in ''world affairs'' t
       then MOCK_NEWS_REPORT
     else if py_in ''fundamental information'' t \<or> py_in ''financial documents'' t
       then MOCK_FUNDAMENTALS_REPORT
     else if py_in ''bull analyst'' t then MOCK_BULL_ARGUMENT
     else if py_in ''bear analyst'' t then MOCK_BEAR_ARGUMENT
     else if py_in ''portfolio manager and debate facilitator'' t
       then MOCK_RESEARCH_MANAGER_DECISION
     else if py_in ''risk management judge'' t then MOCK_RISK_JUDGE_DECISION
     else if py_in ''trading agent'' t \<and> py_in ''investment decision'' t
       then MOCK_TRADER_DECISION
     else if py_in ''aggressive risk analyst'' t then MOCK_AGGRESSIVE_RISK
     else if py_in ''conservative risk analyst'' t then MOCK_CONSERVATIVE_RISK
     else if py_in ''neutral risk analyst'' t then MOCK_NEUTRAL_RISK
     else if py_in ''expert financial analyst'' t \<and> py_in ''reviewing trading'' t
       then ''Reflection: The analysis was thorough and well-supported by data.''
     else ''Analysis complete. FINAL TRANSACTION PROPOSAL: **BUY**'')"


text \<open>
  The same chain over any lowercasing function. \<open>str.lower\<close> maps the letters of all of
  Unicode; \<open>str_lower\<close> is its ASCII part.
\<close>

definition route_with :: "(string \<Rightarrow> string) \<Rightarrow> string \<Rightarrow> string" where
  "route_with lower text =
    (let t = lower text in
     if py_in ''extract the investment decision'' t then ''BUY''
     else if py_in ''analyzing financial markets'' t \<or> py_in ''technical indicator'' t
       then MOCK_MARKET_REPORT
     else if py_in ''social media'' t \<and> py_in ''sentiment'' t \<and> \<not> py_in ''analyst'' t
       then MOCK_SENTIMENT_REPORT
     else if py_in ''news'' t \<and> py_in ''researcher'' t \<and> py_in ''world affairs'' t
       then MOCK_NEWS_REPORT
     else if py_in ''fundamental information'' t \<or> py_in ''financial documents'' t
       then MOCK_FUNDAMENTALS_REPORT
     else if py_in ''bull analyst'' t then MOCK_BULL_ARGUMENT
     else if py_in ''bear analyst'' t then MOCK_BEAR_ARGUMENT
     else if py_in ''portfolio manager and debate facilitator'' t
       then MOCK_RESEARCH_MANAGER_DECISION
     else if py_in ''risk management judge'' t then MOCK_RISK_JUDGE_DECISION
     else if py_in ''trading agent'' t \<and> py_in ''investment decision'' t
       then MOCK_TRADER_DECISION
     else if py_in ''aggressive risk analyst'' t then MOCK_AGGRESSIVE_RISK
     else if py_in ''conservative risk analyst'' t then MOCK_CONSERVATIVE_RISK
     else if py_in ''neutral risk analyst'' t then MOCK_NEUTRAL_RISK
     else if py_in ''expert financial analyst'' t \<and> py_in ''reviewing trading'' t
       then ''Reflection: The analysis was thorough and well-supported by data.''
     else ''Analysis complete. FINAL TRANSACTION PROPOSAL: **BUY**'')"

section \<open>Python values, exceptions and text formatting\<close>

text \<open>
  The values that reach the code from JSON files, message contents and keyword options:
  \<open>None\<close>, booleans, integers, strings, lists and dictionaries with string keys
  (floating-point numbers and arbitrary objects are left out).
\<close>

datatype pyval =
    PNone
  | PBool bool
  | PInt int
  | PStr string
  | PList "pyval list"
  | PDict "string \<Rightarrow> pyval option"

text \<open>
  Exceptions are values: the class and the message that \<open>str(e)\<close> gives. Only subclasses
  of \<open>Exception\<close> are modelled. \<open>ConnectTimeout\<close> is a subclass of both
  \<open>requests.ConnectionError\<close> and \<open>requests.Timeout\<close>; \<open>ReadTimeout\<close> of
  \<open>requests.Timeout\<close> only.
\<close>

datatype exc_class =
    ImportError | ValueError | TypeError | KeyError | AttributeError
  | FileNotFoundError | ConnectionError | ConnectTimeout | Timeout | ReadTimeout
  | TimeoutExpired | OtherException

datatype exn = Raise exc_class string

fun is_ConnectionError :: "exc_class \<Rightarrow> bool" where
  "is_ConnectionError ConnectionError = True"
| "is_ConnectionError ConnectTimeout = True"
| "is_ConnectionError _ = False"

fun is_Timeout :: "exc_class \<Rightarrow> bool" where
  "is_Timeout Timeout = True"
| "is_Timeout ConnectTimeout = True"
| "is_Timeout ReadTimeout = True"
| "is_Timeout _ = False"

text \<open>The truth value of an object, as \<open>if x\<close> and \<open>not x\<close> test it.\<close>

fun truthy :: "pyval \<Rightarrow> bool" where
  "truthy PNone = False"
| "truthy (PBool b) = b"
| "truthy (PInt n) = (n \<noteq> 0)"
| "truthy (PStr s) = (s \<noteq> [])"
| "truthy (PList xs) = (xs \<noteq> [])"
| "truthy (PDict d) = (d \<noteq> Map.empty)"

text \<open>Decimal digits of a number, as \<open>str(n)\<close> prints an \<open>int\<close>.\<close>

fun str_nat :: "nat \<Rightarrow> string" where
  "str_nat n =
     (if n < 10 then [char_of (48 + n)]
      else str_nat (n div 10) @ [char_of (48 + n mod 10)])"

declare str_nat.simps [simp del]

definition str_int :: "int \<Rightarrow> string" where
  "str_int i = (if i < 0 then CHR ''-'' # str_nat (nat (- i)) else str_nat (nat i))"

text \<open>
  \<open>str(v)\<close>, which an f-string applies to a value. The text of a list or a dictionary
  is produced by \<open>repr\<close>, a parameter of the model.
\<close>

fun py_str :: "(pyval \<Rightarrow> string) \<Rightarrow> pyval \<Rightarrow> string" where
  "py_str repr (PStr s) = s"
| "py_str repr PNone = ''None''"
| "py_str repr (PBool b) = (if b then ''True'' else ''False'')"
| "py_str repr (PInt n) = str_int n"
| "py_str repr v = repr v"

fun type_name :: "pyval \<Rightarrow> string" where
  "type_name PNone = ''NoneType''"
| "type_name (PBool b) = ''bool''"
| "type_name (PInt n) = ''int''"
| "type_name (PStr s) = ''str''"
| "type_name (PList xs) = ''list''"
| "type_name (PDict d) = ''dict''"

text \<open>
  \<open>sep.join(parts)\<close>: the strings with \<open>sep\<close> between them; \<open>TypeError\<close> at the
  first part that is not a string.
\<close>

fun join_from :: "nat \<Rightarrow> string \<Rightarrow> pyval list \<Rightarrow> exn + string" where
  "join_from i sep [] = Inr []"
| "join_from i sep (PStr s # rest) =
     (case join_from (Suc i) sep rest of
        Inl e \<Rightarrow> Inl e
      | Inr r \<Rightarrow> Inr (if rest = [] then s else s @ sep @ r))"
| "join_from i sep (v # rest) =
     Inl (Raise TypeError (''sequence item '' @ str_nat i @ '': expected str instance, ''
            @ type_name v @ '' found''))"

definition str_join :: "string \<Rightarrow> pyval list \<Rightarrow> exn + string" where
  "str_join sep parts = join_from 0 sep parts"


section \<open>The mock chat model\<close>

text \<open>
  A message carries a \<open>content\<close> attribute; \<open>getattr(m, "content", "")\<close> reads it with
  the empty string as default, so a message without the attribute is \<open>None\<close> here.
\<close>

datatype message = Message "pyval option"

fun get_content :: "message \<Rightarrow> pyval" where
  "get_content (Message None) = PStr []"
| "get_content (Message (Some c)) = c"

text \<open>
  The parts one content item adds: a dictionary adds \<open>item.get("text", "")\<close>, a string
  adds itself, anything else adds nothing.
\<close>

fun item_parts :: "pyval \<Rightarrow> pyval list" where
  "item_parts (PDict d) = [case d ''text'' of None \<Rightarrow> PStr [] | Some v \<Rightarrow> v]"
| "item_parts (PStr s) = [PStr s]"
| "item_parts _ = []"

fun content_parts :: "pyval \<Rightarrow> pyval list" where
  "content_parts (PStr s) = [PStr s]"
| "content_parts (PList items) = concat (map item_parts items)"
| "content_parts _ = []"

text \<open>\<open>_extract_text\<close>\<close>

definition extract_text :: "message list \<Rightarrow> exn + string" where
  "extract_text messages =
     str_join '' '' (concat (map (\<lambda>m. content_parts (get_content m)) messages))"

datatype ai_message = AIMessage string
datatype chat_generation = ChatGeneration ai_message
datatype chat_result = ChatResult "chat_generation list"

text \<open>
  \<open>MockChatModel._generate\<close>. The class has no attributes; the call receives the
  messages, the stop list, the run manager and further keyword arguments.
\<close>

definition generate ::
  "message list \<Rightarrow> string list option \<Rightarrow> 'rm \<Rightarrow> (string \<Rightarrow> pyval option) \<Rightarrow> exn + chat_result"
where
  "generate messages stop run_manager kwargs =
     (case extract_text messages of
        Inl e \<Rightarrow> Inl e
      | Inr prompt_text \<Rightarrow>
          (let content = route_response prompt_text;
               message = AIMessage content
           in Inr (ChatResult [ChatGeneration message])))"

section \<open>Utilities for local inference\<close>

text \<open>
  The network is a parameter: \<open>requests.get(url, timeout=t)\<close> either raises or returns a
  response. A response has its status code and \<open>tags\<close>, the outcome of decoding the body
  and reading the model names (\<open>resp.json().get("models", [])\<close> and \<open>m["name"]\<close> for
  each model): the exception raised on the way, or the list of names.
\<close>

record http_response =
  status_code :: int
  tags :: "exn + string list"

type_synonym network = "string \<Rightarrow> nat \<Rightarrow> exn + http_response"

text \<open>\<open>sep.join(names)\<close> for strings.\<close>

fun join_strs :: "string \<Rightarrow> string list \<Rightarrow> string" where
  "join_strs sep [] = []"
| "join_strs sep [s] = s"
| "join_strs sep (s # rest) = s @ sep @ join_strs sep rest"

text \<open>The statements inside the \<open>try\<close> of \<open>check_ollama_health\<close>.\<close>

definition health_try :: "network \<Rightarrow> string \<Rightarrow> exn + (bool \<times> string)" where
  "health_try requests_get base_url =
     (case requests_get (base_url @ ''/api/tags'') 5 of
        Inl e \<Rightarrow> Inl e
      | Inr resp \<Rightarrow>
          if status_code resp = 200 then
            (case tags resp of
               Inl e \<Rightarrow> Inl e
             | Inr model_names \<Rightarrow>
                 Inr (True, ''Ollama running with '' @ str_nat (length model_names)
                        @ '' model(s): ''
                        @ (if join_strs '', '' model_names = [] then ''none''
                           else join_strs '', '' model_names)))
          else Inr (False, ''Ollama returned status '' @ str_int (status_code resp)))"

text \<open>\<open>check_ollama_health\<close>: the \<open>except\<close> clauses in the order of the source.\<close>

definition check_ollama_health :: "network \<Rightarrow> string \<Rightarrow> exn + (bool \<times> string)" where
  "check_ollama_health requests_get base_url =
     (case health_try requests_get base_url of
        Inr r \<Rightarrow> Inr r
      | Inl (Raise cls msg) \<Rightarrow>
          if is_ConnectionError cls then
            Inr (False, ''Ollama server not reachable. Start with: ollama serve'')
          else if is_Timeout cls then Inr (False, ''Ollama server timed out'')
          else Inr (False, ''Ollama health check failed: '' @ msg))"

text \<open>
  The operating system is a parameter: \<open>subprocess.run(argv, timeout=t)\<close> either raises
  (\<open>FileNotFoundError\<close> when the program is missing, \<open>TimeoutExpired\<close> when it runs
  longer than \<open>t\<close> seconds) or returns the completed process.
\<close>

record completed_process =
  returncode :: int
  stderr :: string

type_synonym process_runner = "string list \<Rightarrow> nat \<Rightarrow> exn + completed_process"

definition pull_try :: "process_runner \<Rightarrow> string \<Rightarrow> exn + (bool \<times> string)" where
  "pull_try subprocess_run model_name =
     (case subprocess_run [''ollama'', ''pull'', model_name] 600 of
        Inl e \<Rightarrow> Inl e
      | Inr result \<Rightarrow>
          if returncode result = 0 then Inr (True, ''Successfully pulled '' @ model_name)
          else Inr (False, ''Failed to pull '' @ model_name @ '': '' @ stderr result))"

definition pull_ollama_model :: "process_runner \<Rightarrow> string \<Rightarrow> exn + (bool \<times> string)" where
  "pull_ollama_model subprocess_run model_name =
     (case pull_try subprocess_run model_name of
        Inr r \<Rightarrow> Inr r
      | Inl (Raise cls msg) \<Rightarrow>
          if cls = FileNotFoundError then
            Inr (False, ''ollama CLI not found. Install from: https://ollama.com'')
          else if cls = TimeoutExpired then
            Inr (False, ''Timed out pulling '' @ model_name @ '' (>10 min)'')
          else Inr (False, ''Error pulling model: '' @ msg))"

section \<open>Files and double-precision numbers\<close>

text \<open>
  The file system is a parameter: \<open>os.path.isfile\<close>, \<open>os.access(path, os.R_OK)\<close> and
  \<open>os.path.getsize\<close> on paths, and \<open>os.path.isfile\<close> on a file descriptor (an integer
  argument).
\<close>

record filesystem =
  isfile :: "string \<Rightarrow> bool"
  readable :: "string \<Rightarrow> bool"
  getsize :: "string \<Rightarrow> nat"
  fd_isfile :: "int \<Rightarrow> bool"

text \<open>
  Python floats are IEEE doubles. The values that occur here are non-negative and far
  from overflow and underflow, so a double is an integer of at most 53 significant bits
  times a power of two, and every operation rounds its exact result to the nearest such
  number, ties to the even one. The rounding is written out on integers.
\<close>

fun bit_length :: "nat \<Rightarrow> nat" where
  "bit_length n = (if n = 0 then 0 else Suc (bit_length (n div 2)))"

declare bit_length.simps [simp del]

text \<open>The integer nearest to \<open>a / b\<close>, ties to even (for \<open>b > 0\<close>).\<close>

definition round_half_even :: "nat \<Rightarrow> nat \<Rightarrow> nat" where
  "round_half_even a b =
     (let q = a div b; r = a mod b
      in if b < 2 * r \<or> (2 * r = b \<and> odd q) then q + 1 else q)"

text \<open>\<open>n\<close> rounded to 53 significant bits: the value of \<open>float(n)\<close>.\<close>

definition to_double :: "nat \<Rightarrow> nat" where
  "to_double n = (let k = bit_length n - 53 in round_half_even n (2 ^ k) * 2 ^ k)"

text \<open>
  A float that is printed with one digit after the point, given by its number of tenths:
  \<open>Tenths 12\<close> is \<open>1.2\<close>.
\<close>

datatype decimal1 = Tenths nat

definition str_decimal1 :: "decimal1 \<Rightarrow> string" where
  "str_decimal1 d = (case d of Tenths t \<Rightarrow> str_nat (t div 10) @ ''.'' @ str_nat (t mod 10))"

text \<open>
  \<open>validate_gguf_path\<close>. \<open>size_bytes / (1024 ** 3)\<close> is the double nearest to the
  quotient, \<open>to_double size_bytes / 2 ^ 30\<close>, and the format \<open>.1f\<close> prints its exact
  value rounded to one decimal, ties to even.
\<close>

definition validate_gguf_path :: "filesystem \<Rightarrow> string \<Rightarrow> bool \<times> string" where
  "validate_gguf_path fs path =
     (if path = [] then (False, ''No model path provided'')
      else if \<not> isfile fs path then (False, ''File not found: '' @ path)
      else if \<not> endswith (str_lower path) ''.gguf''
        then (False, ''File does not have .gguf extension: '' @ path)
      else if \<not> readable fs path then (False, ''File not readable: '' @ path)
      else
        let size_bytes = getsize fs path;
            size_gb = Tenths (round_half_even (to_double size_bytes * 10) (2 ^ 30))
        in (True, ''Valid GGUF file ('' @ str_decimal1 size_gb @ '' GB)''))"

text \<open>
  \<open>estimate_memory_usage\<close>. The literal \<open>1.15\<close> is the double
  \<open>5179139571476070 / 2 ^ 52\<close>. \<open>size_bytes * 1.15\<close> converts the size to a double and
  rounds the product; the division by \<open>2 ^ 30\<close> is exact; \<open>round(x, 1)\<close> rounds the
  exact value of \<open>x\<close> to one decimal, ties to even.
\<close>

definition double_1_15 :: nat where
  "double_1_15 = 5179139571476070"

definition estimate_memory_usage :: "filesystem \<Rightarrow> string \<Rightarrow> decimal1 option" where
  "estimate_memory_usage fs model_path =
     (if \<not> isfile fs model_path then None
      else
        let size_bytes = getsize fs model_path;
            product = to_double (to_double size_bytes * double_1_15)
        in Some (Tenths (round_half_even (product * 10) (2 ^ 82))))"

text \<open>
  The estimate in exact arithmetic, for comparison: the size times \<open>1.15\<close>, divided by
  \<open>1024 ^ 3\<close>, rounded to one decimal. A tie is rounded to even in the first definition
  and upwards in the second.
\<close>

definition exact_estimate_half_even :: "nat \<Rightarrow> decimal1" where
  "exact_estimate_half_even size_bytes = Tenths (round_half_even (size_bytes * 115) (10 * 2 ^ 30))"

definition exact_estimate_half_up :: "nat \<Rightarrow> decimal1" where
  "exact_estimate_half_up size_bytes = Tenths ((2 * size_bytes * 115 + 10 * 2 ^ 30) div (2 * 10 * 2 ^ 30))"

section \<open>The llama.cpp client\<close>

text \<open>Which optional packages can be imported.\<close>

record environment =
  llama_cpp_installed :: bool
  langchain_community_installed :: bool

text \<open>
  Modelled from the spec: \<open>BaseLLMClient.__init__\<close> (\<open>base_client.py\<close> is not among the
  sources). A client carries its configuration: the model identifier, the optional base
  URL and the further options, which \<open>get_llm\<close> reads as \<open>self.kwargs\<close>.
\<close>

record llm_client =
  model :: string
  base_url :: "string option"
  kwargs :: "string \<Rightarrow> pyval option"

definition BaseLLMClient_init ::
  "string \<Rightarrow> string option \<Rightarrow> (string \<Rightarrow> pyval option) \<Rightarrow> llm_client" where
  "BaseLLMClient_init m url kw = \<lparr>model = m, base_url = url, kwargs = kw\<rparr>"

text \<open>\<open>LlamaCppClient._validate_dependencies\<close>\<close>

definition validate_dependencies :: "environment \<Rightarrow> exn + unit" where
  "validate_dependencies env =
     (if llama_cpp_installed env then Inr ()
      else Inl (Raise ImportError
        (''llama-cpp-python is required for local inference. '' @
         ''Install with: pip install tradingagents[local]'')))"

text \<open>\<open>LlamaCppClient.__init__\<close>\<close>

definition LlamaCppClient_init ::
  "environment \<Rightarrow> string \<Rightarrow> string option \<Rightarrow> (string \<Rightarrow> pyval option) \<Rightarrow> exn + llm_client"
where
  "LlamaCppClient_init env m url kw =
     (let self = BaseLLMClient_init m url kw
      in case validate_dependencies env of
           Inl e \<Rightarrow> Inl e
         | Inr u \<Rightarrow> Inr self)"

definition quoted :: "string \<Rightarrow> string" where
  "quoted s = [CHR 0x27] @ s @ [CHR 0x27]"

text \<open>
  \<open>os.path.isfile(p)\<close>: a string is looked up as a path, an integer (or a boolean, which
  is an integer) as a file descriptor; any other argument raises \<open>TypeError\<close>.
\<close>

fun os_path_isfile :: "filesystem \<Rightarrow> pyval \<Rightarrow> exn + bool" where
  "os_path_isfile fs (PStr s) = Inr (isfile fs s)"
| "os_path_isfile fs (PInt n) = Inr (fd_isfile fs n)"
| "os_path_isfile fs (PBool b) = Inr (fd_isfile fs (if b then 1 else 0))"
| "os_path_isfile fs v =
     Inl (Raise TypeError
       (''stat: path should be string, bytes, os.PathLike or integer, not '' @ type_name v))"

text \<open>\<open>d.get(key, default)\<close>\<close>

definition dict_get :: "(string \<Rightarrow> pyval option) \<Rightarrow> string \<Rightarrow> pyval \<Rightarrow> pyval" where
  "dict_get d key dflt = (case d key of None \<Rightarrow> dflt | Some v \<Rightarrow> v)"

text \<open>
  \<open>LlamaCppClient.get_llm\<close>. The import of \<open>ChatLlamaCpp\<close> from
  \<open>langchain_community\<close> is the first statement and fails with \<open>ModuleNotFoundError\<close>
  (an \<open>ImportError\<close>) when the package is missing. The class \<open>ChatLlamaCpp\<close> is a
  parameter: it receives the keyword arguments and returns the model or raises.
\<close>

definition get_llm ::
  "((string \<Rightarrow> pyval option) \<Rightarrow> exn + 'llm) \<Rightarrow> (pyval \<Rightarrow> string) \<Rightarrow> environment \<Rightarrow> filesystem
     \<Rightarrow> llm_client \<Rightarrow> exn + 'llm"
where
  "get_llm ChatLlamaCpp repr env fs self =
     (if \<not> langchain_community_installed env then
        Inl (Raise ImportError (''No module named '' @ quoted ''langchain_community''))
      else
        let model_path = dict_get (kwargs self) ''model_path'' PNone in
        if \<not> truthy model_path then
          Inl (Raise ValueError
            (''model_path is required for llamacpp provider. '' @
             ''Set local_model_path_deep / local_model_path_quick in config.''))
        else
          case os_path_isfile fs model_path of
            Inl e \<Rightarrow> Inl e
          | Inr is_file \<Rightarrow>
              if \<not> is_file then
                Inl (Raise FileNotFoundError
                  (''GGUF model file not found: '' @ py_str repr model_path))
              else
                let llm_kwargs =
                      [''model_path'' \<mapsto> model_path,
                       ''n_gpu_layers'' \<mapsto> dict_get (kwargs self) ''n_gpu_layers'' (PInt (- 1)),
                       ''n_ctx'' \<mapsto> dict_get (kwargs self) ''n_ctx'' (PInt 4096),
                       ''n_batch'' \<mapsto> dict_get (kwargs self) ''n_batch'' (PInt 512),
                       ''verbose'' \<mapsto> PBool False];
                    llm_kwargs =
                      (case kwargs self ''temperature'' of
                         None \<Rightarrow> llm_kwargs
                       | Some v \<Rightarrow> llm_kwargs(''temperature'' \<mapsto> v));
                    llm_kwargs =
                      (case kwargs self ''callbacks'' of
                         None \<Rightarrow> llm_kwargs
                       | Some v \<Rightarrow> llm_kwargs(''callbacks'' \<mapsto> v))
                in ChatLlamaCpp llm_kwargs)"

section \<open>Markdown export of a state\<close>

text \<open>\<open>s.replace(old, new)\<close> for single characters, and \<open>s.title()\<close>.\<close>

definition str_replace_char :: "char \<Rightarrow> char \<Rightarrow> string \<Rightarrow> string" where
  "str_replace_char old new s = map (\<lambda>c. if c = old then new else c) s"

fun title_from :: "bool \<Rightarrow> string \<Rightarrow> string" where
  "title_from previous_is_cased [] = []"
| "title_from previous_is_cased (c # cs) =
     (if previous_is_cased then char_lower c else char_upper c)
       # title_from (is_upper c \<or> is_lower c) cs"

definition str_title :: "string \<Rightarrow> string" where
  "str_title s = title_from False s"

definition section_title :: "string \<Rightarrow> string" where
  "section_title key = str_title (str_replace_char CHR ''_'' CHR '' '' key)"

text \<open>
  \<open>key in obj\<close>: a key of a dictionary, a substring of a string, an element of a list;
  \<open>TypeError\<close> for \<open>None\<close>, booleans and integers.
\<close>

fun py_contains :: "pyval \<Rightarrow> string \<Rightarrow> exn + bool" where
  "py_contains (PDict d) key = Inr (d key \<noteq> None)"
| "py_contains (PStr s) key = Inr (py_in key s)"
| "py_contains (PList xs) key = Inr (PStr key \<in> set xs)"
| "py_contains v key =
     Inl (Raise TypeError (''argument of type '' @ quoted (type_name v) @ '' is not iterable''))"

text \<open>\<open>obj[key]\<close> for a string \<open>key\<close>.\<close>

fun py_getitem :: "pyval \<Rightarrow> string \<Rightarrow> exn + pyval" where
  "py_getitem (PDict d) key =
     (case d key of None \<Rightarrow> Inl (Raise KeyError (quoted key)) | Some v \<Rightarrow> Inr v)"
| "py_getitem (PStr s) key =
     Inl (Raise TypeError (''string indices must be integers, not '' @ quoted ''str''))"
| "py_getitem (PList xs) key =
     Inl (Raise TypeError ''list indices must be integers or slices, not str'')"
| "py_getitem v key =
     Inl (Raise TypeError (quoted (type_name v) @ '' object is not subscriptable''))"

text \<open>
  The loop over top-level text fields: a field that is present and true gives one part
  (\<open>text_part\<close>): a rule, a heading with the title of the key, and the value.
\<close>

definition text_part :: "(pyval \<Rightarrow> string) \<Rightarrow> string \<Rightarrow> pyval \<Rightarrow> string" where
  "text_part repr key v =
     ''\<newline>---\<newline>## '' @ section_title key @ ''\<newline>\<newline>''
       @ py_str repr v @ ''\<newline>''"

fun text_sections ::
  "(pyval \<Rightarrow> string) \<Rightarrow> (string \<Rightarrow> pyval option) \<Rightarrow> string list \<Rightarrow> string list" where
  "text_sections repr state [] = []"
| "text_sections repr state (key # keys) =
     (case state key of
        None \<Rightarrow> []
      | Some v \<Rightarrow>
          if truthy v then [text_part repr key v] else [])
     @ text_sections repr state keys"

text \<open>
  The loop over the sub-fields of a debate state: a sub-field that is present and true
  gives one part with a third-level heading. The tests \<open>subkey in ds\<close> and \<open>ds[subkey]\<close>
  raise when the debate state is not a dictionary.
\<close>

definition entry_part :: "(pyval \<Rightarrow> string) \<Rightarrow> string \<Rightarrow> pyval \<Rightarrow> string" where
  "entry_part repr subkey v =
     ''### '' @ section_title subkey @ ''\<newline>\<newline>'' @ py_str repr v
       @ ''\<newline>\<newline>''"

fun debate_entries :: "(pyval \<Rightarrow> string) \<Rightarrow> pyval \<Rightarrow> string list \<Rightarrow> exn + string list" where
  "debate_entries repr ds [] = Inr []"
| "debate_entries repr ds (subkey # subkeys) =
     (case py_contains ds subkey of
        Inl e \<Rightarrow> Inl e
      | Inr present \<Rightarrow>
          if \<not> present then debate_entries repr ds subkeys
          else
            case py_getitem ds subkey of
              Inl e \<Rightarrow> Inl e
            | Inr v \<Rightarrow>
                (case debate_entries repr ds subkeys of
                   Inl e \<Rightarrow> Inl e
                 | Inr rest \<Rightarrow>
                     Inr ((if truthy v then [entry_part repr subkey v] else []) @ rest)))"

text \<open>A debate section: nothing when the key is absent, else the heading and the entries.\<close>

definition debate_section ::
  "(pyval \<Rightarrow> string) \<Rightarrow> (string \<Rightarrow> pyval option) \<Rightarrow> string \<Rightarrow> string \<Rightarrow> string list
     \<Rightarrow> exn + string list" where
  "debate_section repr state key heading subkeys =
     (case state key of
        None \<Rightarrow> Inr []
      | Some ds \<Rightarrow>
          (case debate_entries repr ds subkeys of
             Inl e \<Rightarrow> Inl e
           | Inr entries \<Rightarrow> Inr (heading # entries)))"

text \<open>\<open>_state_to_md\<close>: the list of parts, or the exception raised on the way.\<close>

definition state_to_md ::
  "(pyval \<Rightarrow> string) \<Rightarrow> (string \<Rightarrow> pyval option) \<Rightarrow> exn + string list" where
  "state_to_md repr state =
     (let header =
            ''**Company:** '' @ py_str repr (dict_get state ''company_of_interest'' (PStr ''N/A''))
              @ '' | **Trade Date:** '' @ py_str repr (dict_get state ''trade_date'' (PStr ''N/A''))
              @ ''\<newline>'';
          reports = text_sections repr state
            [''market_report'', ''sentiment_report'', ''news_report'', ''fundamentals_report'']
      in case debate_section repr state ''investment_debate_state''
                ''\<newline>---\<newline>## Investment Debate\<newline>\<newline>''
                [''bull_history'', ''bear_history'', ''current_response'', ''judge_decision'',
                 ''trader_investment_decision''] of
           Inl e \<Rightarrow> Inl e
         | Inr investment \<Rightarrow>
             (case debate_section repr state ''risk_debate_state''
                     ''\<newline>---\<newline>## Risk Debate\<newline>\<newline>''
                     [''aggressive_history'', ''conservative_history'', ''neutral_history'',
                      ''judge_decision''] of
                Inl e \<Rightarrow> Inl e
              | Inr risk \<Rightarrow>
                  Inr ([header] @ reports @ investment @ risk
                       @ text_sections repr state [''investment_plan'', ''final_trade_decision''])))"






section \<open>Verified properties\<close>

subsection \<open>Strings\<close>

lemma startswith_iff: "startswith s p \<longleftrightarrow> (\<exists>r. s = p @ r)"
  by (induction s p rule: startswith.induct) auto

lemma py_in_iff: "py_in sub s \<longleftrightarrow> (\<exists>p r. s = p @ sub @ r)"
proof (induction s)
  case Nil
  then show ?case by auto
next
  case (Cons c cs)
  show ?case
  proof
    assume "py_in sub (c # cs)"
    then consider "startswith (c # cs) sub" | "py_in sub cs" by auto
    then show "\<exists>p r. c # cs = p @ sub @ r"
    proof cases
      case 1
      then obtain r where "c # cs = sub @ r" by (auto simp: startswith_iff)
      then have "c # cs = [] @ sub @ r" by simp
      then show ?thesis by blast
    next
      case 2
      then obtain p r where "cs = p @ sub @ r" using Cons.IH by auto
      then have "c # cs = (c # p) @ sub @ r" by simp
      then show ?thesis by blast
    qed
  next
    assume "\<exists>p r. c # cs = p @ sub @ r"
    then obtain p r where eq: "c # cs = p @ sub @ r" by blast
    show "py_in sub (c # cs)"
    proof (cases p)
      case Nil
      with eq have "startswith (c # cs) sub" by (auto simp: startswith_iff)
      then show ?thesis by simp
    next
      case (Cons a p')
      with eq have "cs = p' @ sub @ r" by simp
      then have "py_in sub cs" using Cons.IH by blast
      then show ?thesis by simp
    qed
  qed
qed

lemma endswith_iff: "endswith s suf \<longleftrightarrow> (\<exists>p. s = p @ suf)"
proof (induction s)
  case Nil
  then show ?case by auto
next
  case (Cons c cs)
  show ?case
  proof
    assume "endswith (c # cs) suf"
    then consider "c # cs = suf" | "endswith cs suf" by auto
    then show "\<exists>p. c # cs = p @ suf"
    proof cases
      case 1
      then have "c # cs = [] @ suf" by simp
      then show ?thesis by blast
    next
      case 2
      then obtain p where "cs = p @ suf" using Cons.IH by auto
      then have "c # cs = (c # p) @ suf" by simp
      then show ?thesis by blast
    qed
  next
    assume "\<exists>p. c # cs = p @ suf"
    then obtain p where eq: "c # cs = p @ suf" by blast
    show "endswith (c # cs) suf"
    proof (cases p)
      case Nil
      with eq have "c # cs = suf" by simp
      then show ?thesis using endswith.simps(2) [of c cs suf] by blast
    next
      case (Cons a p')
      with eq have "cs = p' @ suf" by simp
      then have "endswith cs suf" using Cons.IH by blast
      then show ?thesis by simp
    qed
  qed
qed

lemma char_lower_idem: "char_lower (char_lower c) = char_lower c"
  by (auto simp: char_lower_def is_upper_def)

lemma str_lower_idem: "str_lower (str_lower s) = str_lower s"
  by (simp add: str_lower_def char_lower_idem)

subsection \<open>The mock router\<close>

text \<open>
  C4. Whenever the lowercased prompt contains \<open>extract the investment decision\<close>, the router
  returns the bare token \<open>BUY\<close>, one of BUY, SELL and HOLD, whatever else the prompt
  contains: the test is the first of the chain.
\<close>

theorem extract_rule_returns_bare_token:
  assumes "py_in ''extract the investment decision'' (str_lower text)"
  shows "route_response text = ''BUY'' \<and> route_response text \<in> {''BUY'', ''SELL'', ''HOLD''}"
  using assms by (simp add: route_response_def)

theorem extract_rule_returns_bare_token_witness:
  "py_in ''extract the investment decision''
     (str_lower ''You are a Bull Analyst and a Risk Management Judge. Extract the investment decision: technical indicator'')
   \<and> route_response ''You are a Bull Analyst and a Risk Management Judge. Extract the investment decision: technical indicator'' = ''BUY''"
proof -
  have h: "py_in ''extract the investment decision''
     (str_lower ''You are a Bull Analyst and a Risk Management Judge. Extract the investment decision: technical indicator'')"
    by code_simp
  from extract_rule_returns_bare_token [OF h] h show ?thesis by simp
qed


text \<open>
  C5. When none of the conditions of the chain holds for the lowercased prompt, the router
  returns the generic fallback, which contains the phrase
  \<open>FINAL TRANSACTION PROPOSAL: **BUY**\<close>, and BUY is one of BUY, SELL and HOLD.
\<close>

theorem unmatched_input_gets_fallback_with_sentinel:
  assumes "\<not> py_in ''extract the investment decision'' (str_lower text)"
    and "\<not> (py_in ''analyzing financial markets'' (str_lower text)
            \<or> py_in ''technical indicator'' (str_lower text))"
    and "\<not> (py_in ''social media'' (str_lower text) \<and> py_in ''sentiment'' (str_lower text)
            \<and> \<not> py_in ''analyst'' (str_lower text))"
    and "\<not> (py_in ''news'' (str_lower text) \<and> py_in ''researcher'' (str_lower text)
            \<and> py_in ''world affairs'' (str_lower text))"
    and "\<not> (py_in ''fundamental information'' (str_lower text)
            \<or> py_in ''financial documents'' (str_lower text))"
    and "\<not> py_in ''bull analyst'' (str_lower text)"
    and "\<not> py_in ''bear analyst'' (str_lower text)"
    and "\<not> py_in ''portfolio manager and debate facilitator'' (str_lower text)"
    and "\<not> py_in ''risk management judge'' (str_lower text)"
    and "\<not> (py_in ''trading agent'' (str_lower text)
            \<and> py_in ''investment decision'' (str_lower text))"
    and "\<not> py_in ''aggressive risk analyst'' (str_lower text)"
    and "\<not> py_in ''conservative risk analyst'' (str_lower text)"
    and "\<not> py_in ''neutral risk analyst'' (str_lower text)"
    and "\<not> (py_in ''expert financial analyst'' (str_lower text)
            \<and> py_in ''reviewing trading'' (str_lower text))"
  shows "route_response text = ''Analysis complete. FINAL TRANSACTION PROPOSAL: **BUY**''
       \<and> (\<exists>signal \<in> {''BUY'', ''SELL'', ''HOLD''}.
             py_in (''FINAL TRANSACTION PROPOSAL: **'' @ signal @ ''**'') (route_response text))"
proof -
  have r: "route_response text = ''Analysis complete. FINAL TRANSACTION PROPOSAL: **BUY**''"
    unfolding route_response_def Let_def using assms by presburger
  have "py_in (''FINAL TRANSACTION PROPOSAL: **'' @ ''BUY'' @ ''**'')
          ''Analysis complete. FINAL TRANSACTION PROPOSAL: **BUY**''"
    by simp
  with r show ?thesis by simp
qed


theorem unmatched_input_gets_fallback_with_sentinel_witness:
  "route_response ''Summarise the weather for Tuesday''
     = ''Analysis complete. FINAL TRANSACTION PROPOSAL: **BUY**''
   \<and> (\<exists>signal \<in> {''BUY'', ''SELL'', ''HOLD''}.
         py_in (''FINAL TRANSACTION PROPOSAL: **'' @ signal @ ''**'')
           (route_response ''Summarise the weather for Tuesday''))"
proof -
  have l: "str_lower ''Summarise the weather for Tuesday''
             = ''summarise the weather for tuesday''"
    by code_simp
  show ?thesis
    using unmatched_input_gets_fallback_with_sentinel [of "''Summarise the weather for Tuesday''"]
    unfolding l by simp
qed

text \<open>
  C10 (as stated, refuted). \<open>NEWS RESEARCHER ON WORLD AFFAIRS\<close> and the same text with
  each \<open>S\<close> written as a long s differ only in the case of their letters. The first is
  lowercased to the keywords of the news rule; in the second the long s stays, no rule
  matches, and the router returns the fallback.
\<close>

theorem long_s_variant_routes_differently:
  "differ_only_in_case ''NEWS RESEARCHER ON WORLD AFFAIRS''
     (''NEW'' @ [CHR 0xC5, CHR 0xBF] @ '' RE'' @ [CHR 0xC5, CHR 0xBF]
        @ ''EARCHER ON WORLD AFFAIR'' @ [CHR 0xC5, CHR 0xBF])
   \<and> route_response ''NEWS RESEARCHER ON WORLD AFFAIRS'' = MOCK_NEWS_REPORT
   \<and> route_response
       (''NEW'' @ [CHR 0xC5, CHR 0xBF] @ '' RE'' @ [CHR 0xC5, CHR 0xBF]
          @ ''EARCHER ON WORLD AFFAIR'' @ [CHR 0xC5, CHR 0xBF])
     = ''Analysis complete. FINAL TRANSACTION PROPOSAL: **BUY**''
   \<and> route_response ''NEWS RESEARCHER ON WORLD AFFAIRS''
     \<noteq> route_response
         (''NEW'' @ [CHR 0xC5, CHR 0xBF] @ '' RE'' @ [CHR 0xC5, CHR 0xBF]
            @ ''EARCHER ON WORLD AFFAIR'' @ [CHR 0xC5, CHR 0xBF])"
proof -
  have a: "differ_only_in_case ''NEWS RESEARCHER ON WORLD AFFAIRS''
     (''NEW'' @ [CHR 0xC5, CHR 0xBF] @ '' RE'' @ [CHR 0xC5, CHR 0xBF]
        @ ''EARCHER ON WORLD AFFAIR'' @ [CHR 0xC5, CHR 0xBF])"
    unfolding append.simps
    by (intro differ_only_in_case.Nil differ_only_in_case.Same
          differ_only_in_case.Long_s_right)
  have lx: "str_lower ''NEWS RESEARCHER ON WORLD AFFAIRS'' = ''news researcher on world affairs''"
    by code_simp
  have ly: "str_lower (''NEW'' @ [CHR 0xC5, CHR 0xBF] @ '' RE'' @ [CHR 0xC5, CHR 0xBF]
          @ ''EARCHER ON WORLD AFFAIR'' @ [CHR 0xC5, CHR 0xBF])
      = ''new'' @ [CHR 0xC5, CHR 0xBF] @ '' re'' @ [CHR 0xC5, CHR 0xBF]
          @ ''earcher on world affair'' @ [CHR 0xC5, CHR 0xBF]"
    by code_simp
  have b: "route_response ''NEWS RESEARCHER ON WORLD AFFAIRS'' = MOCK_NEWS_REPORT"
    unfolding route_response_def lx by simp
  have c: "route_response
       (''NEW'' @ [CHR 0xC5, CHR 0xBF] @ '' RE'' @ [CHR 0xC5, CHR 0xBF]
          @ ''EARCHER ON WORLD AFFAIR'' @ [CHR 0xC5, CHR 0xBF])
     = ''Analysis complete. FINAL TRANSACTION PROPOSAL: **BUY**''"
    unfolding route_response_def ly by simp
  have d: "MOCK_NEWS_REPORT \<noteq> ''Analysis complete. FINAL TRANSACTION PROPOSAL: **BUY**''"
    by (simp add: MOCK_NEWS_REPORT_def)
  from a b c d show ?thesis by simp
qed

text \<open>
  C10 (amended). Two prompts with the same lowercased text get the same response, whatever
  the lowercasing function is; so do two prompts that differ only in the case of their
  ASCII letters.
\<close>

lemma route_response_eq_route_with: "route_response text = route_with str_lower text"
  by (simp add: route_response_def route_with_def)

lemma ascii_case_pairs_lower:
  "\<forall>(a, b) \<in> set ascii_case_pairs. char_lower a = b \<and> char_lower b = b"
  by code_simp

lemma ascii_case_variant_lower: "ascii_case_variant a b \<Longrightarrow> char_lower a = char_lower b"
  using ascii_case_pairs_lower unfolding ascii_case_variant_def by fastforce

lemma differ_only_in_ascii_case_lower:
  "differ_only_in_ascii_case x y \<Longrightarrow> str_lower x = str_lower y"
  unfolding differ_only_in_ascii_case_def str_lower_def
  by (induction x y rule: list_all2_induct) (auto simp: ascii_case_variant_lower)

lemma route_with_cong: "lower x = lower y \<Longrightarrow> route_with lower x = route_with lower y"
  by (simp add: route_with_def)

theorem route_invariant_under_case:
  "(lower x = lower y \<longrightarrow> route_with lower x = route_with lower y)
   \<and> (differ_only_in_ascii_case x y \<longrightarrow> route_response x = route_response y)"
proof -
  have "route_response x = route_response y" if "differ_only_in_ascii_case x y"
    unfolding route_response_eq_route_with
    using that by (intro route_with_cong differ_only_in_ascii_case_lower)
  then show ?thesis using route_with_cong by blast
qed

theorem route_invariant_under_case_witness:
  "differ_only_in_ascii_case ''You are a BULL Analyst'' ''yOU ARE A bull aNALYST''
   \<and> route_response ''You are a BULL Analyst'' = route_response ''yOU ARE A bull aNALYST''"
proof -
  have h: "differ_only_in_ascii_case ''You are a BULL Analyst'' ''yOU ARE A bull aNALYST''"
    by code_simp
  from route_invariant_under_case
    [of str_lower "''You are a BULL Analyst''" "''yOU ARE A bull aNALYST''"] h
  show ?thesis by blast
qed

text \<open>
  C1 (as stated, refuted). The response for the bull researcher ends with none of
  \<open>FINAL TRANSACTION PROPOSAL: **BUY**\<close>, \<open>... **SELL**\<close> and \<open>... **HOLD**\<close>;
  the phrase does not occur in it at all.
\<close>

theorem debate_response_lacks_sentinel:
  "route_response ''You are a Bull Analyst making the case for investing.'' = MOCK_BULL_ARGUMENT
   \<and> \<not> endswith (route_response ''You are a Bull Analyst making the case for investing.'')
           ''FINAL TRANSACTION PROPOSAL: **BUY**''
   \<and> \<not> endswith (route_response ''You are a Bull Analyst making the case for investing.'')
           ''FINAL TRANSACTION PROPOSAL: **SELL**''
   \<and> \<not> endswith (route_response ''You are a Bull Analyst making the case for investing.'')
           ''FINAL TRANSACTION PROPOSAL: **HOLD**''
   \<and> \<not> py_in ''FINAL TRANSACTION PROPOSAL''
           (route_response ''You are a Bull Analyst making the case for investing.'')"
proof -
  have l: "str_lower ''You are a Bull Analyst making the case for investing.''
             = ''you are a bull analyst making the case for investing.''"
    by code_simp
  have r: "route_response ''You are a Bull Analyst making the case for investing.''
             = MOCK_BULL_ARGUMENT"
    unfolding route_response_def l by simp
  have "\<not> endswith MOCK_BULL_ARGUMENT ''FINAL TRANSACTION PROPOSAL: **BUY**''"
    and "\<not> endswith MOCK_BULL_ARGUMENT ''FINAL TRANSACTION PROPOSAL: **SELL**''"
    and "\<not> endswith MOCK_BULL_ARGUMENT ''FINAL TRANSACTION PROPOSAL: **HOLD**''"
    and "\<not> py_in ''FINAL TRANSACTION PROPOSAL'' MOCK_BULL_ARGUMENT"
    by (simp_all add: MOCK_BULL_ARGUMENT_def)
  then show ?thesis unfolding r by simp
qed

text \<open>
  C1 (amended). For every prompt that is routed to one of the four analyst roles (market,
  sentiment, news, fundamentals), the canned response ends with
  \<open>FINAL TRANSACTION PROPOSAL: **BUY**\<close>.
\<close>

lemma MOCK_MARKET_REPORT_sentinel:
  "endswith MOCK_MARKET_REPORT ''FINAL TRANSACTION PROPOSAL: **BUY**''"
  by (simp add: MOCK_MARKET_REPORT_def)

lemma MOCK_SENTIMENT_REPORT_sentinel:
  "endswith MOCK_SENTIMENT_REPORT ''FINAL TRANSACTION PROPOSAL: **BUY**''"
  by (simp add: MOCK_SENTIMENT_REPORT_def)

lemma MOCK_NEWS_REPORT_sentinel:
  "endswith MOCK_NEWS_REPORT ''FINAL TRANSACTION PROPOSAL: **BUY**''"
  by (simp add: MOCK_NEWS_REPORT_def)

lemma MOCK_FUNDAMENTALS_REPORT_sentinel:
  "endswith MOCK_FUNDAMENTALS_REPORT ''FINAL TRANSACTION PROPOSAL: **BUY**''"
  by (simp add: MOCK_FUNDAMENTALS_REPORT_def)

theorem analyst_response_ends_with_sentinel:
  assumes "\<not> py_in ''extract the investment decision'' (str_lower text)"
    and "(py_in ''analyzing financial markets'' (str_lower text)
            \<or> py_in ''technical indicator'' (str_lower text))
       \<or> (py_in ''social media'' (str_lower text) \<and> py_in ''sentiment'' (str_lower text)
            \<and> \<not> py_in ''analyst'' (str_lower text))
       \<or> (py_in ''news'' (str_lower text) \<and> py_in ''researcher'' (str_lower text)
            \<and> py_in ''world affairs'' (str_lower text))
       \<or> (py_in ''fundamental information'' (str_lower text)
            \<or> py_in ''financial documents'' (str_lower text))"
  shows "route_response text \<in> {MOCK_MARKET_REPORT, MOCK_SENTIMENT_REPORT, MOCK_NEWS_REPORT,
                                MOCK_FUNDAMENTALS_REPORT}
       \<and> endswith (route_response text) ''FINAL TRANSACTION PROPOSAL: **BUY**''"
proof -
  have "route_response text = MOCK_MARKET_REPORT \<or> route_response text = MOCK_SENTIMENT_REPORT
      \<or> route_response text = MOCK_NEWS_REPORT \<or> route_response text = MOCK_FUNDAMENTALS_REPORT"
    unfolding route_response_def Let_def using assms by presburger
  then show ?thesis
    using MOCK_MARKET_REPORT_sentinel MOCK_SENTIMENT_REPORT_sentinel
      MOCK_NEWS_REPORT_sentinel MOCK_FUNDAMENTALS_REPORT_sentinel
    by (elim disjE) simp_all
qed

theorem analyst_response_ends_with_sentinel_witness:
  "route_response ''You are a news researcher covering world affairs'' = MOCK_NEWS_REPORT
   \<and> endswith (route_response ''You are a news researcher covering world affairs'')
         ''FINAL TRANSACTION PROPOSAL: **BUY**''"
proof -
  have l: "str_lower ''You are a news researcher covering world affairs''
             = ''you are a news researcher covering world affairs''"
    by code_simp
  have r: "route_response ''You are a news researcher covering world affairs'' = MOCK_NEWS_REPORT"
    unfolding route_response_def l by simp
  have h1: "\<not> py_in ''extract the investment decision''
              (str_lower ''You are a news researcher covering world affairs'')"
    unfolding l by simp
  have h2: "py_in ''news'' (str_lower ''You are a news researcher covering world affairs'')
          \<and> py_in ''researcher'' (str_lower ''You are a news researcher covering world affairs'')
          \<and> py_in ''world affairs'' (str_lower ''You are a news researcher covering world affairs'')"
    unfolding l by simp
  have "endswith (route_response ''You are a news researcher covering world affairs'')
         ''FINAL TRANSACTION PROPOSAL: **BUY**''"
    using analyst_response_ends_with_sentinel [OF h1] h2 by blast
  with r show ?thesis by blast
qed


subsection \<open>Health check and model pull\<close>

lemma check_ollama_health_total:
  "\<exists>ok msg. check_ollama_health requests_get url = Inr (ok, msg)"
  unfolding check_ollama_health_def
  by (auto split: sum.splits exn.splits)

lemma pull_ollama_model_total:
  "\<exists>ok msg. pull_ollama_model subprocess_run model_name = Inr (ok, msg)"
  unfolding pull_ollama_model_def
  by (auto split: sum.splits exn.splits)

text \<open>
  C3. \<open>check_ollama_health\<close> and \<open>pull_ollama_model\<close> always return a status pair and
  never an exception. An unreachable server, a status other than 200, a timeout of the
  server, a missing \<open>ollama\<close> program and a pull that exceeds the timeout of 600 seconds
  each give \<open>False\<close> with a message; the messages for the missing program and for the
  pull timeout are fixed texts that differ from each other.
\<close>

theorem ollama_utilities_never_raise:
  "(\<exists>ok msg. check_ollama_health requests_get url = Inr (ok, msg))
   \<and> (\<exists>ok msg. pull_ollama_model subprocess_run model_name = Inr (ok, msg))
   \<and> (\<forall>cls m. requests_get (url @ ''/api/tags'') 5 = Inl (Raise cls m)
          \<and> is_ConnectionError cls
        \<longrightarrow> check_ollama_health requests_get url
            = Inr (False, ''Ollama server not reachable. Start with: ollama serve''))
   \<and> (\<forall>resp. requests_get (url @ ''/api/tags'') 5 = Inr resp \<and> status_code resp \<noteq> 200
        \<longrightarrow> check_ollama_health requests_get url
            = Inr (False, ''Ollama returned status '' @ str_int (status_code resp)))
   \<and> (\<forall>cls m. requests_get (url @ ''/api/tags'') 5 = Inl (Raise cls m)
          \<and> is_Timeout cls \<and> \<not> is_ConnectionError cls
        \<longrightarrow> check_ollama_health requests_get url = Inr (False, ''Ollama server timed out''))
   \<and> (\<forall>m. subprocess_run [''ollama'', ''pull'', model_name] 600 = Inl (Raise FileNotFoundError m)
        \<longrightarrow> pull_ollama_model subprocess_run model_name
            = Inr (False, ''ollama CLI not found. Install from: https://ollama.com''))
   \<and> (\<forall>m. subprocess_run [''ollama'', ''pull'', model_name] 600 = Inl (Raise TimeoutExpired m)
        \<longrightarrow> pull_ollama_model subprocess_run model_name
            = Inr (False, ''Timed out pulling '' @ model_name @ '' (>10 min)''))
   \<and> ''ollama CLI not found. Install from: https://ollama.com''
        \<noteq> ''Timed out pulling '' @ model_name @ '' (>10 min)''"
proof -
  have a: "\<exists>ok msg. check_ollama_health requests_get url = Inr (ok, msg)"
    by (rule check_ollama_health_total)
  have b: "\<exists>ok msg. pull_ollama_model subprocess_run model_name = Inr (ok, msg)"
    by (rule pull_ollama_model_total)
  have c: "\<forall>cls m. requests_get (url @ ''/api/tags'') 5 = Inl (Raise cls m)
          \<and> is_ConnectionError cls
        \<longrightarrow> check_ollama_health requests_get url
            = Inr (False, ''Ollama server not reachable. Start with: ollama serve'')"
    by (simp add: check_ollama_health_def health_try_def)
  have d: "\<forall>resp. requests_get (url @ ''/api/tags'') 5 = Inr resp \<and> status_code resp \<noteq> 200
        \<longrightarrow> check_ollama_health requests_get url
            = Inr (False, ''Ollama returned status '' @ str_int (status_code resp))"
    by (simp add: check_ollama_health_def health_try_def)
  have e: "\<forall>cls m. requests_get (url @ ''/api/tags'') 5 = Inl (Raise cls m)
          \<and> is_Timeout cls \<and> \<not> is_ConnectionError cls
        \<longrightarrow> check_ollama_health requests_get url = Inr (False, ''Ollama server timed out'')"
    by (simp add: check_ollama_health_def health_try_def)
  have f: "\<forall>m. subprocess_run [''ollama'', ''pull'', model_name] 600 = Inl (Raise FileNotFoundError m)
        \<longrightarrow> pull_ollama_model subprocess_run model_name
            = Inr (False, ''ollama CLI not found. Install from: https://ollama.com'')"
    by (simp add: pull_ollama_model_def pull_try_def)
  have g: "\<forall>m. subprocess_run [''ollama'', ''pull'', model_name] 600 = Inl (Raise TimeoutExpired m)
        \<longrightarrow> pull_ollama_model subprocess_run model_name
            = Inr (False, ''Timed out pulling '' @ model_name @ '' (>10 min)'')"
    by (simp add: pull_ollama_model_def pull_try_def)
  have h: "''ollama CLI not found. Install from: https://ollama.com''
        \<noteq> ''Timed out pulling '' @ model_name @ '' (>10 min)''"
    by simp
  from a b c d e f g h show ?thesis by blast
qed


theorem ollama_utilities_never_raise_witness:
  "check_ollama_health (\<lambda>url t. Inl (Raise ConnectionError ''Connection refused''))
       ''http://localhost:11434''
     = Inr (False, ''Ollama server not reachable. Start with: ollama serve'')
   \<and> check_ollama_health (\<lambda>url t. Inr \<lparr>status_code = 503, tags = Inr []\<rparr>)
       ''http://localhost:11434''
     = Inr (False, ''Ollama returned status 503'')
   \<and> check_ollama_health (\<lambda>url t. Inl (Raise ReadTimeout ''Read timed out.''))
       ''http://localhost:11434''
     = Inr (False, ''Ollama server timed out'')
   \<and> pull_ollama_model (\<lambda>argv t. Inl (Raise FileNotFoundError ''No such file or directory''))
       ''qwen3:8b''
     = Inr (False, ''ollama CLI not found. Install from: https://ollama.com'')
   \<and> pull_ollama_model
       (\<lambda>argv t. if t < 900 then Inl (Raise TimeoutExpired ''timed out'')
                  else Inr \<lparr>returncode = 0, stderr = []\<rparr>)
       ''qwen3:8b''
     = Inr (False, ''Timed out pulling qwen3:8b (>10 min)'')"
proof -
  have n: "str_int 503 = ''503''"
    by code_simp
  have a: "check_ollama_health (\<lambda>url t. Inl (Raise ConnectionError ''Connection refused''))
       ''http://localhost:11434''
     = Inr (False, ''Ollama server not reachable. Start with: ollama serve'')"
    using ollama_utilities_never_raise
      [of "\<lambda>url t. Inl (Raise ConnectionError ''Connection refused'')" "''http://localhost:11434''"]
    by simp
  have b: "check_ollama_health (\<lambda>url t. Inr \<lparr>status_code = 503, tags = Inr []\<rparr>)
       ''http://localhost:11434''
     = Inr (False, ''Ollama returned status 503'')"
    using ollama_utilities_never_raise
      [of "\<lambda>url t. Inr \<lparr>status_code = 503, tags = Inr []\<rparr>" "''http://localhost:11434''"]
    by (simp add: n)
  have c: "check_ollama_health (\<lambda>url t. Inl (Raise ReadTimeout ''Read timed out.''))
       ''http://localhost:11434''
     = Inr (False, ''Ollama server timed out'')"
    using ollama_utilities_never_raise
      [of "\<lambda>url t. Inl (Raise ReadTimeout ''Read timed out.'')" "''http://localhost:11434''"]
    by simp
  have d: "pull_ollama_model (\<lambda>argv t. Inl (Raise FileNotFoundError ''No such file or directory''))
       ''qwen3:8b''
     = Inr (False, ''ollama CLI not found. Install from: https://ollama.com'')"
    using ollama_utilities_never_raise
      [of _ _ "\<lambda>argv t. Inl (Raise FileNotFoundError ''No such file or directory'')" "''qwen3:8b''"]
    by simp
  have e: "pull_ollama_model
       (\<lambda>argv t. if t < 900 then Inl (Raise TimeoutExpired ''timed out'')
                  else Inr \<lparr>returncode = 0, stderr = []\<rparr>)
       ''qwen3:8b''
     = Inr (False, ''Timed out pulling qwen3:8b (>10 min)'')"
    using ollama_utilities_never_raise
      [of _ _ "\<lambda>argv t. if t < 900 then Inl (Raise TimeoutExpired ''timed out'')
                  else Inr \<lparr>returncode = 0, stderr = []\<rparr>" "''qwen3:8b''"]
    by simp
  from a b c d e show ?thesis by blast
qed


subsection \<open>Validation of a model file\<close>

text \<open>
  C6. \<open>validate_gguf_path\<close> answers \<open>(False, 'No model path provided')\<close> for the empty
  path, \<open>(False, 'File not found: <path>')\<close> when the path is not an existing file (so for
  \<open>/no/such/model.gguf\<close> when that file does not exist), \<open>False\<close> with a message for an
  existing file without the extension \<open>.gguf\<close> or that cannot be read, and \<open>True\<close>
  exactly when the path names an existing, readable file whose name ends in \<open>.gguf\<close>.
  The extension is compared on the lowercased path.
\<close>

theorem validate_gguf_path_cases:
  "(path = [] \<longrightarrow> validate_gguf_path fs path = (False, ''No model path provided''))
   \<and> (path \<noteq> [] \<and> \<not> isfile fs path
        \<longrightarrow> validate_gguf_path fs path = (False, ''File not found: '' @ path))
   \<and> (\<not> isfile fs ''/no/such/model.gguf''
        \<longrightarrow> validate_gguf_path fs ''/no/such/model.gguf''
            = (False, ''File not found: /no/such/model.gguf''))
   \<and> (path \<noteq> [] \<and> isfile fs path \<and> \<not> endswith (str_lower path) ''.gguf''
        \<longrightarrow> validate_gguf_path fs path
            = (False, ''File does not have .gguf extension: '' @ path))
   \<and> (path \<noteq> [] \<and> isfile fs path \<and> endswith (str_lower path) ''.gguf'' \<and> \<not> readable fs path
        \<longrightarrow> validate_gguf_path fs path = (False, ''File not readable: '' @ path))
   \<and> (fst (validate_gguf_path fs path)
        \<longleftrightarrow> path \<noteq> [] \<and> isfile fs path \<and> readable fs path
            \<and> endswith (str_lower path) ''.gguf'')"
  by (simp add: validate_gguf_path_def Let_def)

theorem validate_gguf_path_cases_witness:
  "validate_gguf_path
      \<lparr>isfile = (\<lambda>p. p = ''/models/Qwen3-8B-Q4_K_M.gguf''),
       readable = (\<lambda>p. p = ''/models/Qwen3-8B-Q4_K_M.gguf''),
       getsize = (\<lambda>p. 5027783744), fd_isfile = (\<lambda>n. False)\<rparr>
      ''/no/such/model.gguf''
     = (False, ''File not found: /no/such/model.gguf'')
   \<and> fst (validate_gguf_path
      \<lparr>isfile = (\<lambda>p. p = ''/models/Qwen3-8B-Q4_K_M.gguf''),
       readable = (\<lambda>p. p = ''/models/Qwen3-8B-Q4_K_M.gguf''),
       getsize = (\<lambda>p. 5027783744), fd_isfile = (\<lambda>n. False)\<rparr>
      ''/models/Qwen3-8B-Q4_K_M.gguf'')"
proof -
  let ?fs = "\<lparr>isfile = (\<lambda>p. p = ''/models/Qwen3-8B-Q4_K_M.gguf''),
       readable = (\<lambda>p. p = ''/models/Qwen3-8B-Q4_K_M.gguf''),
       getsize = (\<lambda>p. 5027783744), fd_isfile = (\<lambda>n. False)\<rparr>"
  have e: "endswith (str_lower ''/models/Qwen3-8B-Q4_K_M.gguf'') ''.gguf''"
    by code_simp
  have a: "validate_gguf_path ?fs ''/no/such/model.gguf''
             = (False, ''File not found: /no/such/model.gguf'')"
    using validate_gguf_path_cases [of "''/no/such/model.gguf''" ?fs] by simp
  have b: "fst (validate_gguf_path ?fs ''/models/Qwen3-8B-Q4_K_M.gguf'')"
    using validate_gguf_path_cases [of "''/models/Qwen3-8B-Q4_K_M.gguf''" ?fs] e by simp
  from a b show ?thesis by blast
qed


text \<open>The message for a valid file of 5027783744 bytes.\<close>

lemma valid_message_example:
  "validate_gguf_path
      \<lparr>isfile = (\<lambda>p. True), readable = (\<lambda>p. True),
       getsize = (\<lambda>p. 5027783744), fd_isfile = (\<lambda>n. False)\<rparr>
      ''m.gguf'' = (True, ''Valid GGUF file (4.7 GB)'')"
proof -
  have e: "endswith (str_lower ''m.gguf'') ''.gguf''" by code_simp
  have d: "to_double 5027783744 = 5027783744"
    by (simp add: to_double_def bit_length.simps round_half_even_def)
  have s: "str_decimal1 (Tenths 47) = ''4.7''" by code_simp
  show ?thesis
    by (simp add: validate_gguf_path_def e d round_half_even_def s)
qed

subsection \<open>The llama.cpp client\<close>

text \<open>
  C7 (failing input). The class requires \<open>llama-cpp-python\<close> and
  \<open>langchain-community\<close>, but the constructor checks \<open>llama_cpp\<close> only. With
  \<open>llama_cpp\<close> installed and \<open>langchain_community\<close> missing the client is
  constructed without a dependency error, and \<open>get_llm\<close> without a \<open>model_path\<close>
  raises the \<open>ModuleNotFoundError\<close> of its first statement instead of the error that
  a model path is required.
\<close>

theorem get_llm_import_precedes_path_check:
  "LlamaCppClient_init \<lparr>llama_cpp_installed = True, langchain_community_installed = False\<rparr>
      ''qwen3'' None Map.empty
     = Inr \<lparr>model = ''qwen3'', base_url = None, kwargs = Map.empty\<rparr>
   \<and> get_llm Inr (\<lambda>v. []) \<lparr>llama_cpp_installed = True, langchain_community_installed = False\<rparr>
        \<lparr>isfile = (\<lambda>p. False), readable = (\<lambda>p. False), getsize = (\<lambda>p. 0),
         fd_isfile = (\<lambda>n. False)\<rparr>
        \<lparr>model = ''qwen3'', base_url = None, kwargs = Map.empty\<rparr>
     = Inl (Raise ImportError (''No module named '' @ quoted ''langchain_community''))
   \<and> get_llm Inr (\<lambda>v. []) \<lparr>llama_cpp_installed = True, langchain_community_installed = False\<rparr>
        \<lparr>isfile = (\<lambda>p. False), readable = (\<lambda>p. False), getsize = (\<lambda>p. 0),
         fd_isfile = (\<lambda>n. False)\<rparr>
        \<lparr>model = ''qwen3'', base_url = None, kwargs = Map.empty\<rparr>
     \<noteq> Inl (Raise ValueError
          (''model_path is required for llamacpp provider. '' @
           ''Set local_model_path_deep / local_model_path_quick in config.''))"
  by (simp add: LlamaCppClient_init_def BaseLLMClient_init_def validate_dependencies_def
      get_llm_def quoted_def)


text \<open>
  With both packages at hand the client behaves as described: constructing it raises the
  \<open>ImportError\<close> that names \<open>llama-cpp-python\<close> when \<open>llama_cpp\<close> is not
  installed; \<open>get_llm\<close> raises the \<open>ValueError\<close> that a model path is required when
  \<open>model_path\<close> is missing, raises \<open>FileNotFoundError\<close> when the path is not an
  existing file, and for an existing file passes \<open>n_gpu_layers = -1\<close>, \<open>n_ctx = 4096\<close>
  and \<open>n_batch = 512\<close> to \<open>ChatLlamaCpp\<close>, each when that option is omitted.
\<close>

theorem llamacpp_client_errors_and_defaults:
  "(\<not> llama_cpp_installed env
      \<longrightarrow> LlamaCppClient_init env m url kw
          = Inl (Raise ImportError
              (''llama-cpp-python is required for local inference. '' @
               ''Install with: pip install tradingagents[local]'')))
   \<and> (langchain_community_installed env \<and> kwargs self ''model_path'' = None
      \<longrightarrow> get_llm ChatLlamaCpp repr env fs self
          = Inl (Raise ValueError
              (''model_path is required for llamacpp provider. '' @
               ''Set local_model_path_deep / local_model_path_quick in config.'')))
   \<and> (langchain_community_installed env \<and> kwargs self ''model_path'' = Some (PStr p)
        \<and> p \<noteq> [] \<and> \<not> isfile fs p
      \<longrightarrow> get_llm ChatLlamaCpp repr env fs self
          = Inl (Raise FileNotFoundError (''GGUF model file not found: '' @ p)))
   \<and> (langchain_community_installed env \<and> kwargs self ''model_path'' = Some (PStr p)
        \<and> p \<noteq> [] \<and> isfile fs p
      \<longrightarrow> (\<exists>llm_kwargs. get_llm ChatLlamaCpp repr env fs self = ChatLlamaCpp llm_kwargs
            \<and> llm_kwargs ''model_path'' = Some (PStr p)
            \<and> (kwargs self ''n_gpu_layers'' = None
                 \<longrightarrow> llm_kwargs ''n_gpu_layers'' = Some (PInt (- 1)))
            \<and> (kwargs self ''n_ctx'' = None \<longrightarrow> llm_kwargs ''n_ctx'' = Some (PInt 4096))
            \<and> (kwargs self ''n_batch'' = None \<longrightarrow> llm_kwargs ''n_batch'' = Some (PInt 512))))"
proof -
  have a: "\<not> llama_cpp_installed env
      \<longrightarrow> LlamaCppClient_init env m url kw
          = Inl (Raise ImportError
              (''llama-cpp-python is required for local inference. '' @
               ''Install with: pip install tradingagents[local]''))"
    by (simp add: LlamaCppClient_init_def validate_dependencies_def)
  have b: "langchain_community_installed env \<and> kwargs self ''model_path'' = None
      \<longrightarrow> get_llm ChatLlamaCpp repr env fs self
          = Inl (Raise ValueError
              (''model_path is required for llamacpp provider. '' @
               ''Set local_model_path_deep / local_model_path_quick in config.''))"
    by (simp add: get_llm_def dict_get_def)
  have c: "langchain_community_installed env \<and> kwargs self ''model_path'' = Some (PStr p)
        \<and> p \<noteq> [] \<and> \<not> isfile fs p
      \<longrightarrow> get_llm ChatLlamaCpp repr env fs self
          = Inl (Raise FileNotFoundError (''GGUF model file not found: '' @ p))"
    by (simp add: get_llm_def dict_get_def)
  have d: "langchain_community_installed env \<and> kwargs self ''model_path'' = Some (PStr p)
        \<and> p \<noteq> [] \<and> isfile fs p
      \<longrightarrow> (\<exists>llm_kwargs. get_llm ChatLlamaCpp repr env fs self = ChatLlamaCpp llm_kwargs
            \<and> llm_kwargs ''model_path'' = Some (PStr p)
            \<and> (kwargs self ''n_gpu_layers'' = None
                 \<longrightarrow> llm_kwargs ''n_gpu_layers'' = Some (PInt (- 1)))
            \<and> (kwargs self ''n_ctx'' = None \<longrightarrow> llm_kwargs ''n_ctx'' = Some (PInt 4096))
            \<and> (kwargs self ''n_batch'' = None \<longrightarrow> llm_kwargs ''n_batch'' = Some (PInt 512)))"
    by (auto simp add: get_llm_def dict_get_def Let_def split: option.splits)
  from a b c d show ?thesis by blast
qed


theorem llamacpp_client_errors_and_defaults_witness:
  "LlamaCppClient_init \<lparr>llama_cpp_installed = False, langchain_community_installed = True\<rparr>
      ''qwen3'' None Map.empty
     = Inl (Raise ImportError
         (''llama-cpp-python is required for local inference. '' @
          ''Install with: pip install tradingagents[local]''))
   \<and> get_llm Inr (\<lambda>v. []) \<lparr>llama_cpp_installed = True, langchain_community_installed = True\<rparr>
        \<lparr>isfile = (\<lambda>p. p = ''/models/q.gguf''), readable = (\<lambda>p. True), getsize = (\<lambda>p. 0),
         fd_isfile = (\<lambda>n. False)\<rparr>
        \<lparr>model = ''qwen3'', base_url = None, kwargs = Map.empty\<rparr>
     = Inl (Raise ValueError
         (''model_path is required for llamacpp provider. '' @
          ''Set local_model_path_deep / local_model_path_quick in config.''))
   \<and> get_llm Inr (\<lambda>v. []) \<lparr>llama_cpp_installed = True, langchain_community_installed = True\<rparr>
        \<lparr>isfile = (\<lambda>p. p = ''/models/q.gguf''), readable = (\<lambda>p. True), getsize = (\<lambda>p. 0),
         fd_isfile = (\<lambda>n. False)\<rparr>
        \<lparr>model = ''qwen3'', base_url = None,
         kwargs = [''model_path'' \<mapsto> PStr ''/no/such/model.gguf'']\<rparr>
     = Inl (Raise FileNotFoundError ''GGUF model file not found: /no/such/model.gguf'')
   \<and> (\<exists>llm_kwargs.
        get_llm Inr (\<lambda>v. []) \<lparr>llama_cpp_installed = True, langchain_community_installed = True\<rparr>
          \<lparr>isfile = (\<lambda>p. p = ''/models/q.gguf''), readable = (\<lambda>p. True), getsize = (\<lambda>p. 0),
           fd_isfile = (\<lambda>n. False)\<rparr>
          \<lparr>model = ''qwen3'', base_url = None,
           kwargs = [''model_path'' \<mapsto> PStr ''/models/q.gguf'']\<rparr>
          = Inr llm_kwargs
        \<and> llm_kwargs ''model_path'' = Some (PStr ''/models/q.gguf'')
        \<and> llm_kwargs ''n_gpu_layers'' = Some (PInt (- 1))
        \<and> llm_kwargs ''n_ctx'' = Some (PInt 4096)
        \<and> llm_kwargs ''n_batch'' = Some (PInt 512))"
proof -
  let ?env = "\<lparr>llama_cpp_installed = True, langchain_community_installed = True\<rparr>"
  let ?fs = "\<lparr>isfile = (\<lambda>p. p = ''/models/q.gguf''), readable = (\<lambda>p. True),
              getsize = (\<lambda>p. 0), fd_isfile = (\<lambda>n. False)\<rparr>"
  have a: "LlamaCppClient_init \<lparr>llama_cpp_installed = False, langchain_community_installed = True\<rparr>
      ''qwen3'' None Map.empty
     = Inl (Raise ImportError
         (''llama-cpp-python is required for local inference. '' @
          ''Install with: pip install tradingagents[local]''))"
    using llamacpp_client_errors_and_defaults
      [where env = "\<lparr>llama_cpp_installed = False, langchain_community_installed = True\<rparr>"
         and m = "''qwen3''" and url = None and kw = Map.empty, THEN conjunct1]
    by simp
  have b: "get_llm Inr (\<lambda>v. []) ?env ?fs \<lparr>model = ''qwen3'', base_url = None, kwargs = Map.empty\<rparr>
     = Inl (Raise ValueError
         (''model_path is required for llamacpp provider. '' @
          ''Set local_model_path_deep / local_model_path_quick in config.''))"
    using llamacpp_client_errors_and_defaults
      [where env = ?env and fs = ?fs and ChatLlamaCpp = Inr and repr = "\<lambda>v. []"
         and self = "\<lparr>model = ''qwen3'', base_url = None, kwargs = Map.empty\<rparr>"]
    by simp
  have c: "get_llm Inr (\<lambda>v. []) ?env ?fs
        \<lparr>model = ''qwen3'', base_url = None,
         kwargs = [''model_path'' \<mapsto> PStr ''/no/such/model.gguf'']\<rparr>
     = Inl (Raise FileNotFoundError ''GGUF model file not found: /no/such/model.gguf'')"
    using llamacpp_client_errors_and_defaults
      [where env = ?env and fs = ?fs and p = "''/no/such/model.gguf''"
         and ChatLlamaCpp = Inr and repr = "\<lambda>v. []"
         and self = "\<lparr>model = ''qwen3'', base_url = None,
                       kwargs = [''model_path'' \<mapsto> PStr ''/no/such/model.gguf'']\<rparr>"]
    by simp
  have d: "\<exists>llm_kwargs.
        get_llm Inr (\<lambda>v. []) ?env ?fs
          \<lparr>model = ''qwen3'', base_url = None,
           kwargs = [''model_path'' \<mapsto> PStr ''/models/q.gguf'']\<rparr>
          = Inr llm_kwargs
        \<and> llm_kwargs ''model_path'' = Some (PStr ''/models/q.gguf'')
        \<and> llm_kwargs ''n_gpu_layers'' = Some (PInt (- 1))
        \<and> llm_kwargs ''n_ctx'' = Some (PInt 4096)
        \<and> llm_kwargs ''n_batch'' = Some (PInt 512)"
    using llamacpp_client_errors_and_defaults
      [where env = ?env and fs = ?fs and p = "''/models/q.gguf''" and ChatLlamaCpp = Inr
         and repr = "\<lambda>v. []"
         and self = "\<lparr>model = ''qwen3'', base_url = None,
                       kwargs = [''model_path'' \<mapsto> PStr ''/models/q.gguf'']\<rparr>"]
    by simp
  from a b c d show ?thesis by blast
qed


subsection \<open>Markdown export\<close>

lemma startswith_append_same: "startswith (a @ x) (a @ y) = startswith x y"
  by (induction a) auto






lemma titles:
  "section_title ''market_report'' = ''Market Report''"
  "section_title ''sentiment_report'' = ''Sentiment Report''"
  "section_title ''news_report'' = ''News Report''"
  "section_title ''fundamentals_report'' = ''Fundamentals Report''"
  "section_title ''investment_plan'' = ''Investment Plan''"
  "section_title ''final_trade_decision'' = ''Final Trade Decision''"
  by code_simp+










lemma first_char_differs:
  "\<not> startswith (CHR ''*'' # rest) (''\<newline>---\<newline>## '' @ t)"
  "\<not> startswith (CHR ''#'' # rest) (''\<newline>---\<newline>## '' @ t)"
  by simp_all











text \<open>The parts of a small snapshot.\<close>

lemma state_to_md_example:
  "state_to_md (\<lambda>v. [])
     [''company_of_interest'' \<mapsto> PStr ''NVDA'', ''market_report'' \<mapsto> PStr ''Uptrend'',
      ''news_report'' \<mapsto> PStr [],
      ''investment_debate_state'' \<mapsto> PDict [''bull_history'' \<mapsto> PStr ''Buy'']]
   = Inr [''**Company:** NVDA | **Trade Date:** N/A\<newline>'',
          ''\<newline>---\<newline>## Market Report\<newline>\<newline>Uptrend\<newline>'',
          ''\<newline>---\<newline>## Investment Debate\<newline>\<newline>'',
          ''### Bull History\<newline>\<newline>Buy\<newline>\<newline>'']"
proof -
  have t: "section_title ''bull_history'' = ''Bull History''" by code_simp
  show ?thesis
    by (simp add: state_to_md_def debate_section_def dict_get_def text_part_def entry_part_def
        titles t)
qed

end
